theory Spec2Isabelle
  imports Complex_Main "HOL-Library.Sublist" "HOL-Library.Word"
begin

section \<open>Values\<close>

subsection \<open>float64\<close>

text \<open>
  The rates are Go \<^verbatim>\<open>float64\<close> values, IEEE 754 binary64. \<open>Fin r\<close> is the finite
  number \<open>r\<close> (\<open>Fin 0\<close> is \<open>+0\<close>), \<open>NZero\<close> is \<open>-0\<close>, \<open>PInf\<close> and \<open>NInf\<close> are the
  infinities. The finite numbers of the format are the multiples \<open>n * 2 powi k\<close> with
  \<open>\<bar>n\<bar> < 2 ^ 53\<close> and \<open>- 1074 \<le> k \<le> 971\<close>; arithmetic returns only these.
\<close>

datatype float64 = Fin real | NZero | PInf | NInf | NaN

definition is_zero :: "float64 \<Rightarrow> bool" where
  "is_zero x = (x = Fin 0 \<or> x = NZero)"

definition is_inf :: "float64 \<Rightarrow> bool" where
  "is_inf x = (x = PInf \<or> x = NInf)"

definition is_finite_nonzero :: "float64 \<Rightarrow> bool" where
  "is_finite_nonzero x = (case x of Fin r \<Rightarrow> r \<noteq> 0 | _ \<Rightarrow> False)"

text \<open>The sign bit.\<close>

definition signbit :: "float64 \<Rightarrow> bool" where
  "signbit x = (case x of Fin r \<Rightarrow> r < 0 | NZero \<Rightarrow> True | NInf \<Rightarrow> True | _ \<Rightarrow> False)"

text \<open>Rounding to the nearest integer, a tie going to the even one.\<close>

definition rne :: "real \<Rightarrow> int" where
  "rne x =
     (let f = \<lfloor>x\<rfloor>; d = x - of_int f
      in if d < 1 / 2 then f else if 1 / 2 < d then f + 1 else if even f then f else f + 1)"

text \<open>
  The binary exponent of a positive number \<open>x\<close>, the integer \<open>e\<close> with
  \<open>2 powi e \<le> x < 2 powi (e + 1)\<close>: halve while the number is at least 2, or double
  while it is below 1.
\<close>

function expo_up :: "real \<Rightarrow> int" where
  "expo_up x = (if 2 \<le> x then expo_up (x / 2) + 1 else 0)"
  by pat_completeness auto
termination
  by (relation "measure (\<lambda>x. nat \<lceil>x\<rceil>)") (auto, linarith)

function expo_down :: "real \<Rightarrow> int" where
  "expo_down x = (if 0 < x \<and> x < 1 then expo_down (2 * x) - 1 else 0)"
  by pat_completeness auto
termination
proof (relation "measure (\<lambda>x. nat \<lceil>1 / x\<rceil>)")
  show "wf (measure (\<lambda>x::real. nat \<lceil>1 / x\<rceil>))" by simp
next
  fix x :: real
  assume a: "0 < x \<and> x < 1"
  have half: "\<lceil>t / 2\<rceil> < \<lceil>t\<rceil> \<and> 0 < \<lceil>t\<rceil>" if t: "1 < t" for t :: real
  proof -
    have c: "t \<le> of_int \<lceil>t\<rceil>" by (rule le_of_int_ceiling)
    with t have "(1::real) < of_int \<lceil>t\<rceil>" by linarith
    then have i: "1 < \<lceil>t\<rceil>" by linarith
    then have "(2::real) \<le> of_int \<lceil>t\<rceil>" by linarith
    with c have "t / 2 \<le> of_int \<lceil>t\<rceil> - 1" by linarith
    then have "t / 2 \<le> of_int (\<lceil>t\<rceil> - 1)" by simp
    then have "\<lceil>t / 2\<rceil> \<le> \<lceil>t\<rceil> - 1" by (simp only: ceiling_le_iff)
    with i show ?thesis by linarith
  qed
  from a have "1 < 1 / x" by simp
  from half [OF this] have "nat \<lceil>1 / x / 2\<rceil> < nat \<lceil>1 / x\<rceil>" by linarith
  moreover have "1 / (2 * x) = 1 / x / 2" by simp
  ultimately have "nat \<lceil>1 / (2 * x)\<rceil> < nat \<lceil>1 / x\<rceil>" by (simp only:)
  then show "(2 * x, x) \<in> measure (\<lambda>x. nat \<lceil>1 / x\<rceil>)"
    by (simp only: in_measure)
qed

declare expo_up.simps [simp del] expo_down.simps [simp del]

definition exponent :: "real \<Rightarrow> int" where
  "exponent x = (if 1 \<le> x then expo_up x else expo_down x)"

text \<open>
  The binary64 value of a real number, rounded to nearest, ties to even. The exponent
  is not taken below \<open>- 1022\<close>, so that small numbers are rounded to a multiple of
  \<open>2 powi (- 1074)\<close> (subnormal numbers, or a zero with the sign of the number); a
  result of magnitude \<open>2 ^ 1024\<close> or more is an infinity.
\<close>

definition round64 :: "real \<Rightarrow> float64" where
  "round64 x =
     (if x = 0 then Fin 0
      else
        let a = \<bar>x\<bar>;
            e = max (exponent a) (- 1022);
            ulp = 2 powi (e - 52);
            n = rne (a / ulp);
            y = of_int n * ulp
        in if 2 ^ 1024 \<le> y then (if x < 0 then NInf else PInf)
           else if n = 0 then (if x < 0 then NZero else Fin 0)
           else Fin (if x < 0 then - y else y))"

text \<open>
  Go's \<^verbatim>\<open>x / y\<close> on \<^verbatim>\<open>float64\<close>: it never panics. NaN operands, \<open>0/0\<close> and
  \<open>\<infinity>/\<infinity>\<close> give NaN; otherwise the sign is the exclusive or of the signs, a zero
  divisor or an infinite dividend gives an infinity, a zero dividend or an infinite
  divisor gives a zero, and the quotient of two finite numbers that are not zero is
  the rounded real quotient: it may overflow to an infinity or underflow to a zero.
\<close>

definition fdiv :: "float64 \<Rightarrow> float64 \<Rightarrow> float64" where
  "fdiv x y =
     (if x = NaN \<or> y = NaN then NaN
      else if is_inf x \<and> is_inf y then NaN
      else if is_zero x \<and> is_zero y then NaN
      else if is_inf x \<or> is_zero y then (if signbit x \<noteq> signbit y then NInf else PInf)
      else if is_zero x \<or> is_inf y then (if signbit x \<noteq> signbit y then NZero else Fin 0)
      else (case (x, y) of (Fin a, Fin b) \<Rightarrow> round64 (a / b) | _ \<Rightarrow> NaN))"

subsection \<open>Errors\<close>

text \<open>
  The gRPC status codes the server uses, and \<open>OK\<close>, which \<^verbatim>\<open>WithDetails\<close> tests for.
\<close>

datatype Code = OK | InvalidArgument | AlreadyExists

text \<open>
  \<^verbatim>\<open>protos.Currencies\<close> is a generated protocol-buffer enum, an \<^verbatim>\<open>int32\<close> in Go. Its
  declaration is not among the sources: the table of names behind its \<^verbatim>\<open>String\<close>
  method is a parameter \<open>String\<close> of the functions that call it.
\<close>

type_synonym Currencies = "32 word"

record RateRequest =
  Base :: Currencies
  Destination :: Currencies

text \<open>
  A \<^verbatim>\<open>status.Status\<close>: code, message and the detail messages attached to it (here
  always rate requests).
\<close>

record Status =
  code :: Code
  message :: string
  details :: "RateRequest list"

text \<open>
  Go's \<^verbatim>\<open>error\<close> values of the program:
  \<^item> \<open>RateNotFound c\<close> is \<^verbatim>\<open>fmt.Errorf("rate not found for currency %s", c)\<close>;
  \<^item> \<open>BadStatus n\<close> is \<^verbatim>\<open>fmt.Errorf("expected a status of 200, but got %d", n)\<close>;
  \<^item> \<open>NumError s\<close> is what \<^verbatim>\<open>strconv.ParseFloat\<close> returns for an input \<open>s\<close> it rejects;
  \<^item> \<open>NoDetailsForOK\<close> is the error of \<^verbatim>\<open>WithDetails\<close> on a status with code \<open>OK\<close>;
  \<^item> \<open>StatusError s\<close> is \<^verbatim>\<open>s.Err()\<close> of a gRPC status \<open>s\<close>;
  \<^item> \<open>EOF\<close> is \<^verbatim>\<open>io.EOF\<close>;
  \<^item> \<open>TransportError m\<close> is an error of the network (HTTP client or gRPC stream).
\<close>

datatype error =
    RateNotFound string
  | BadStatus int
  | NumError string
  | NoDetailsForOK
  | StatusError Status
  | EOF
  | TransportError string

section \<open>The exchange-rate store (package data)\<close>

text \<open>The field \<^verbatim>\<open>rates map[string]float64\<close> of \<^verbatim>\<open>ExchangeRates\<close>.\<close>

type_synonym rate_table = "string \<rightharpoonup> float64"

text \<open>
  \<^verbatim>\<open>ExchangeRates.GetRate\<close>: both codes are looked up, the base first; a missing code
  returns \<open>0\<close> and an error that names it.
\<close>

definition GetRate :: "rate_table \<Rightarrow> string \<Rightarrow> string \<Rightarrow> float64 \<times> error option" where
  "GetRate e base dest =
     (case e base of
        None \<Rightarrow> (Fin 0, Some (RateNotFound base))
      | Some br \<Rightarrow>
          (case e dest of
             None \<Rightarrow> (Fin 0, Some (RateNotFound dest))
           | Some dr \<Rightarrow> (fdiv dr br, None)))"

subsection \<open>Refreshing the table from the feed\<close>

text \<open>One entry of the decoded document: the attributes \<^verbatim>\<open>currency\<close> and \<^verbatim>\<open>rate\<close>.\<close>

record Cube =
  Currency :: string
  Rate :: string

text \<open>
  What the network gives \<^verbatim>\<open>GetRates\<close>: either \<^verbatim>\<open>http.DefaultClient.Get\<close> fails
  with an error, or it returns a response with a status code, whose body the XML
  decoder turns into \<^verbatim>\<open>md.CubeData\<close> (the decoder's own error is discarded by the
  code, so the list is whatever the decoder filled in).
\<close>

datatype feed = GetFailed error | Response int "Cube list"

text \<open>
  The loop over \<^verbatim>\<open>md.CubeData\<close>. \<^verbatim>\<open>strconv.ParseFloat\<close> is the parameter
  \<open>ParseFloat\<close>. Each parsed rate is stored at once, in the table itself; the first
  rate that does not parse ends the loop with its error.
\<close>

fun store_cubes ::
  "(string \<Rightarrow> error + float64) \<Rightarrow> Cube list \<Rightarrow> rate_table \<Rightarrow> rate_table \<times> error option" where
  "store_cubes ParseFloat [] e = (e, None)"
| "store_cubes ParseFloat (c # cs) e =
     (case ParseFloat (Rate c) of
        Inl err \<Rightarrow> (e, Some err)
      | Inr r \<Rightarrow> store_cubes ParseFloat cs (e(Currency c \<mapsto> r)))"

text \<open>
  \<^verbatim>\<open>ExchangeRates.GetRates\<close> (the unnamed source file): the table after the call and
  the error returned. When the request itself fails the function returns \<^verbatim>\<open>nil\<close>.
\<close>

definition GetRates ::
  "(string \<Rightarrow> error + float64) \<Rightarrow> feed \<Rightarrow> rate_table \<Rightarrow> rate_table \<times> error option" where
  "GetRates ParseFloat resp e =
     (case resp of
        GetFailed err \<Rightarrow> (e, None)
      | Response StatusCode CubeData \<Rightarrow>
          if StatusCode \<noteq> 200 then (e, Some (BadStatus StatusCode))
          else (case store_cubes ParseFloat CubeData e of
                  (e', Some err) \<Rightarrow> (e', Some err)
                | (e', None) \<Rightarrow> (e'(''EUR'' \<mapsto> Fin 1), None)))"

text \<open>
  \<^verbatim>\<open>ExchangeRate.getRates\<close> of \<^verbatim>\<open>currency/data/rates.go\<close>, the revision of the same
  function before \<^verbatim>\<open>GetRate\<close> was added: it does not store the rate of EUR.
\<close>

definition getRates ::
  "(string \<Rightarrow> error + float64) \<Rightarrow> feed \<Rightarrow> rate_table \<Rightarrow> rate_table \<times> error option" where
  "getRates ParseFloat resp e =
     (case resp of
        GetFailed err \<Rightarrow> (e, None)
      | Response StatusCode CubeData \<Rightarrow>
          if StatusCode \<noteq> 200 then (e, Some (BadStatus StatusCode))
          else store_cubes ParseFloat CubeData e)"

text \<open>\<^verbatim>\<open>NewRates\<close>: an empty table, filled by one call of \<^verbatim>\<open>GetRates\<close>.\<close>

definition NewRates ::
  "(string \<Rightarrow> error + float64) \<Rightarrow> feed \<Rightarrow> rate_table \<times> error option" where
  "NewRates ParseFloat resp = GetRates ParseFloat resp Map.empty"

section \<open>The gRPC server (package server)\<close>

subsection \<open>Messages and state\<close>

text \<open>
  \<^verbatim>\<open>protos.RateResponse\<close> has the two fields of a request and the field
  \<^verbatim>\<open>Rate\<close>; the record extends the request's so that \<open>Base\<close> and \<open>Destination\<close>
  keep their names (\<open>Rate\<close> is taken by the feed's entries).
\<close>

record RateResponse = RateRequest +
  Rate_resp :: float64

text \<open>
  \<^verbatim>\<open>protos.StreamingRateResponse\<close>, a one-of: a rate response or an error status.
\<close>

datatype StreamingRateResponse =
    StreamingRateResponse_RateResponse RateResponse
  | StreamingRateResponse_Error Status

datatype log_entry = Info string | Error string

text \<open>
  The struct \<^verbatim>\<open>Currency\<close>, for connections of type \<open>'c\<close> (the stream handles
  \<^verbatim>\<open>protos.Currency_SubscribeRatesServer\<close>, used as map keys). The field \<open>sent\<close> is
  not a field of the struct: it records every message handed to \<^verbatim>\<open>Send\<close>, with the
  stream it was handed to, in order. The field \<open>log\<close> keeps the messages of the logger
  (not their key and value arguments).
\<close>

record 'c Currency =
  rates :: rate_table
  log :: "log_entry list"
  subscriptions :: "'c \<rightharpoonup> RateRequest list"
  sent :: "('c \<times> StreamingRateResponse) list"

definition log_Info :: "string \<Rightarrow> 'c Currency \<Rightarrow> 'c Currency" where
  "log_Info m c = c\<lparr>log := log c @ [Info m]\<rparr>"

definition log_Error :: "string \<Rightarrow> 'c Currency \<Rightarrow> 'c Currency" where
  "log_Error m c = c\<lparr>log := log c @ [Error m]\<rparr>"

text \<open>
  \<^verbatim>\<open>Status.WithDetails\<close> of the gRPC library, for one detail: it refuses a status
  with code \<open>OK\<close> and returns \<^verbatim>\<open>(nil, err)\<close>; otherwise it returns a status with the
  detail appended. (Its other error is a failure to marshal the detail, which a
  message of two enum fields cannot cause.)
\<close>

definition WithDetails :: "Status \<Rightarrow> RateRequest \<Rightarrow> Status option \<times> error option" where
  "WithDetails s d =
     (if code s = OK then (None, Some NoDetailsForOK)
      else (Some (s\<lparr>details := details s @ [d]\<rparr>), None))"

text \<open>\<^verbatim>\<open>status.Newf\<close>, with the message already formatted.\<close>

definition Newf :: "Code \<Rightarrow> string \<Rightarrow> Status" where
  "Newf c m = \<lparr>code = c, message = m, details = []\<rparr>"

subsection \<open>GetRate\<close>

text \<open>
  \<^verbatim>\<open>Currency.GetRate\<close>, the revision with the check of the request (the copy of
  \<^verbatim>\<open>server/currency.go\<close> that follows the gzip handler in
  \<^verbatim>\<open>product-images/handlers/zip_file_middleware.go\<close>). The format string has one verb
  for two arguments, so \<^verbatim>\<open>Newf\<close> appends the second one as \<^verbatim>\<open>%!(EXTRA ...)\<close>.
\<close>

definition Currency_GetRate ::
  "(Currencies \<Rightarrow> string) \<Rightarrow> 'c Currency \<Rightarrow> RateRequest
     \<Rightarrow> (RateResponse option \<times> error option) \<times> 'c Currency" where
  "Currency_GetRate String c rr =
     (let c1 = log_Info ''Handle request for GetRate'' c in
      if Destination rr = Base rr then
        (let grpcError = Newf InvalidArgument
               (''Base currency '' @ String (Base rr)
                  @ '' cannot be same as the destination currency%!(EXTRA string=''
                  @ String (Destination rr) @ '')'')
         in case WithDetails grpcError rr of
              (_, Some wde) \<Rightarrow> ((None, Some wde), c1)
            | (Some err, None) \<Rightarrow> ((None, Some (StatusError err)), c1)
            | (None, None) \<Rightarrow> ((None, None), c1))
      else
        (case GetRate (rates c1) (String (Base rr)) (String (Destination rr)) of
           (rate, Some err) \<Rightarrow> ((None, Some err), c1)
         | (rate, None) \<Rightarrow>
             ((Some \<lparr>Base = Base rr, Destination = Destination rr, Rate_resp = rate\<rparr>, None), c1)))"

text \<open>
  \<^verbatim>\<open>Currency.GetRate\<close> as it stands in \<^verbatim>\<open>currency/server/currency.go\<close>: the revision
  before the check was added.
\<close>

definition Currency_GetRate_unchecked ::
  "(Currencies \<Rightarrow> string) \<Rightarrow> 'c Currency \<Rightarrow> RateRequest
     \<Rightarrow> (RateResponse option \<times> error option) \<times> 'c Currency" where
  "Currency_GetRate_unchecked String c rr =
     (let c1 = log_Info ''Handle request for GetRate'' c in
      case GetRate (rates c1) (String (Base rr)) (String (Destination rr)) of
        (rate, Some err) \<Rightarrow> ((None, Some err), c1)
      | (rate, None) \<Rightarrow>
          ((Some \<lparr>Base = Base rr, Destination = Destination rr, Rate_resp = rate\<rparr>, None), c1))"

subsection \<open>SubscribeRates\<close>

text \<open>
  The loop that looks for the pair among the connection's subscriptions: the status to
  send back, if any, and what the loop logs. Should \<^verbatim>\<open>WithDetails\<close> fail, its first
  result, \<^verbatim>\<open>nil\<close>, is what \<^verbatim>\<open>validationError\<close> holds when the loop is left.
\<close>

fun check_exists :: "RateRequest list \<Rightarrow> RateRequest \<Rightarrow> Status option \<times> log_entry list" where
  "check_exists [] rr = (None, [])"
| "check_exists (v # rrs) rr =
     (if Base v = Base rr \<and> Destination v = Destination rr then
        (case WithDetails
                (Newf AlreadyExists
                   ''Unable to subscribe for currency as subscriptions already exits'') rr of
           (validationError, Some err) \<Rightarrow>
             (validationError, [Error ''Unable to add metadata to error''])
         | (validationError, None) \<Rightarrow> (validationError, []))
      else check_exists rrs rr)"

text \<open>
  The body of the receive loop for a request \<open>rr\<close> received on the stream \<open>src\<close>. The
  result of \<^verbatim>\<open>src.Send\<close> is not looked at.
\<close>

definition subscribe :: "'c \<Rightarrow> RateRequest \<Rightarrow> 'c Currency \<Rightarrow> 'c Currency" where
  "subscribe src rr c =
     (let c1 = log_Info ''Handle Client request'' c;
          rrs = (case subscriptions c1 src of None \<Rightarrow> [] | Some l \<Rightarrow> l);
          (validationError, msgs) = check_exists rrs rr;
          c2 = c1\<lparr>log := log c1 @ msgs\<rparr>
      in case validationError of
           Some s \<Rightarrow> c2\<lparr>sent := sent c2 @ [(src, StreamingRateResponse_Error s)]\<rparr>
         | None \<Rightarrow> c2\<lparr>subscriptions := (subscriptions c2)(src \<mapsto> rrs @ [rr])\<rparr>)"

text \<open>What one call of \<^verbatim>\<open>src.Recv()\<close> returns: a request, or an error.\<close>

datatype recv = Request RateRequest | Failed error

text \<open>
  How a call of \<^verbatim>\<open>SubscribeRates\<close> stands after the stream has delivered a finite
  sequence of results: it has returned (\<^verbatim>\<open>nil\<close> or an error), or it is still in the
  loop, waiting in \<^verbatim>\<open>Recv\<close>.
\<close>

datatype outcome = Returned "error option" | Receiving

text \<open>
  \<^verbatim>\<open>Currency.SubscribeRates\<close>, run on the results that \<^verbatim>\<open>src.Recv()\<close> delivers, in
  order. \<^verbatim>\<open>io.EOF\<close> leaves the loop and returns \<^verbatim>\<open>nil\<close>; another error is returned;
  a request is handled and the loop goes on.
\<close>

fun SubscribeRates :: "'c \<Rightarrow> recv list \<Rightarrow> 'c Currency \<Rightarrow> outcome \<times> 'c Currency" where
  "SubscribeRates src [] c = (Receiving, c)"
| "SubscribeRates src (Failed err # rs) c =
     (if err = EOF then (Returned None, log_Info ''Client has closed connection'' c)
      else (Returned (Some err), log_Error ''Unable to read from client'' c))"
| "SubscribeRates src (Request rr # rs) c = SubscribeRates src rs (subscribe src rr c)"

text \<open>
  The same loop as it stands in \<^verbatim>\<open>currency/server/currency.go\<close>, the revision before
  the check for an existing subscription was added: every request is appended.
\<close>

definition subscribe_unchecked :: "'c \<Rightarrow> RateRequest \<Rightarrow> 'c Currency \<Rightarrow> 'c Currency" where
  "subscribe_unchecked src rr c =
     (let c1 = log_Info ''Handle Client request'' c;
          rrs = (case subscriptions c1 src of None \<Rightarrow> [] | Some l \<Rightarrow> l)
      in c1\<lparr>subscriptions := (subscriptions c1)(src \<mapsto> rrs @ [rr])\<rparr>)"

fun SubscribeRates_unchecked ::
  "'c \<Rightarrow> recv list \<Rightarrow> 'c Currency \<Rightarrow> outcome \<times> 'c Currency" where
  "SubscribeRates_unchecked src [] c = (Receiving, c)"
| "SubscribeRates_unchecked src (Failed err # rs) c =
     (if err = EOF then (Returned None, log_Info ''Client has closed connection'' c)
      else (Returned (Some err), log_Error ''Unable to read from client'' c))"
| "SubscribeRates_unchecked src (Request rr # rs) c =
     SubscribeRates_unchecked src rs (subscribe_unchecked src rr c)"

subsection \<open>handleUpdates\<close>

text \<open>
  The loop over the subscribed rates \<open>v\<close> of one connection \<open>k\<close>. The outcome of
  \<^verbatim>\<open>k.Send\<close> is the parameter \<open>Send\<close>: it may depend on everything sent before. A
  failed lookup is logged and the response is sent all the same, with the rate the
  lookup returned.
\<close>

fun send_rates ::
  "(Currencies \<Rightarrow> string)
     \<Rightarrow> (('c \<times> StreamingRateResponse) list \<Rightarrow> 'c \<Rightarrow> StreamingRateResponse \<Rightarrow> error option)
     \<Rightarrow> 'c \<Rightarrow> RateRequest list \<Rightarrow> 'c Currency \<Rightarrow> 'c Currency" where
  "send_rates String Send k [] c = c"
| "send_rates String Send k (rr # v) c =
     (let (r, err) = GetRate (rates c) (String (Base rr)) (String (Destination rr));
          c1 = (if err \<noteq> None then log_Error ''Unable to get update rate'' c else c);
          m = StreamingRateResponse_RateResponse
                \<lparr>Base = Base rr, Destination = Destination rr, Rate_resp = r\<rparr>;
          err' = Send (sent c1) k m;
          c2 = c1\<lparr>sent := sent c1 @ [(k, m)]\<rparr>;
          c3 = (if err' \<noteq> None then log_Error ''Unable to get update rate'' c2 else c2)
      in send_rates String Send k v c3)"

text \<open>
  The loop over the subscribed clients. Go visits the keys of a map in an order it
  does not specify: the order is the list \<open>ks\<close>.
\<close>

fun send_all ::
  "(Currencies \<Rightarrow> string)
     \<Rightarrow> (('c \<times> StreamingRateResponse) list \<Rightarrow> 'c \<Rightarrow> StreamingRateResponse \<Rightarrow> error option)
     \<Rightarrow> 'c list \<Rightarrow> 'c Currency \<Rightarrow> 'c Currency" where
  "send_all String Send [] c = c"
| "send_all String Send (k # ks) c =
     send_all String Send ks
       (send_rates String Send k (case subscriptions c k of None \<Rightarrow> [] | Some v \<Rightarrow> v) c)"

text \<open>
  The body of the loop of \<^verbatim>\<open>Currency.handleUpdates\<close>, for one event of the channel
  that \<^verbatim>\<open>MonitorRates\<close> returns (\<^verbatim>\<open>MonitorRates\<close> is not among the sources).
\<close>

definition handleUpdate ::
  "(Currencies \<Rightarrow> string)
     \<Rightarrow> (('c \<times> StreamingRateResponse) list \<Rightarrow> 'c \<Rightarrow> StreamingRateResponse \<Rightarrow> error option)
     \<Rightarrow> 'c list \<Rightarrow> 'c Currency \<Rightarrow> 'c Currency" where
  "handleUpdate String Send ks c = send_all String Send ks (log_Info ''Got Updated rates'' c)"

text \<open>The messages sent to the stream \<open>k\<close>, in order.\<close>

definition sent_to :: "'c \<Rightarrow> 'c Currency \<Rightarrow> StreamingRateResponse list" where
  "sent_to k c = map snd (filter (\<lambda>p. fst p = k) (sent c))"

text \<open>The subscriptions recorded for a connection (none when the key is absent).\<close>

definition subscriptions_of :: "'c Currency \<Rightarrow> 'c \<Rightarrow> RateRequest list" where
  "subscriptions_of c k = (case subscriptions c k of None \<Rightarrow> [] | Some v \<Rightarrow> v)"

section \<open>Auxiliary notions for the statements\<close>

text \<open>
  The table that results from storing the entries \<open>cs\<close> one after the other (a later
  entry overrides an earlier one with the same code), and the entries that precede the
  first one whose rate does not parse.
\<close>

definition stored :: "(string \<Rightarrow> error + float64) \<Rightarrow> Cube list \<Rightarrow> rate_table \<Rightarrow> rate_table" where
  "stored ParseFloat cs e = fold (\<lambda>c m. m(Currency c \<mapsto> projr (ParseFloat (Rate c)))) cs e"

definition parsed_prefix :: "(string \<Rightarrow> error + float64) \<Rightarrow> Cube list \<Rightarrow> Cube list" where
  "parsed_prefix ParseFloat cs = takeWhile (\<lambda>c. \<not> isl (ParseFloat (Rate c))) cs"

text \<open>The status that answers a request for a pair that is already subscribed.\<close>

definition already_exists :: "RateRequest \<Rightarrow> Status" where
  "already_exists rr =
     \<lparr>code = AlreadyExists,
      message = ''Unable to subscribe for currency as subscriptions already exits'',
      details = [rr]\<rparr>"

text \<open>The message that \<^verbatim>\<open>handleUpdates\<close> sends for a subscribed pair, given the table.\<close>

definition update_for ::
  "(Currencies \<Rightarrow> string) \<Rightarrow> rate_table \<Rightarrow> RateRequest \<Rightarrow> StreamingRateResponse" where
  "update_for String e rr =
     StreamingRateResponse_RateResponse
       \<lparr>Base = Base rr, Destination = Destination rr,
        Rate_resp = fst (GetRate e (String (Base rr)) (String (Destination rr)))\<rparr>"

text \<open>The requests received before the first error or the end of the stream.\<close>

fun received :: "recv list \<Rightarrow> RateRequest list" where
  "received [] = []"
| "received (Failed err # rs) = []"
| "received (Request rr # rs) = rr # received rs"

subsection \<open>Concrete inputs for the examples\<close>

text \<open>A table of three currencies; the rates are binary64 numbers.\<close>

definition example_table :: rate_table where
  "example_table = [''EUR'' \<mapsto> Fin 1, ''USD'' \<mapsto> Fin (5/4), ''GBP'' \<mapsto> Fin (3/4)]"

text \<open>
  The values of \<^verbatim>\<open>strconv.ParseFloat(s, 64)\<close> on the strings \<^verbatim>\<open>"0"\<close>, \<^verbatim>\<open>"2"\<close>,
  \<^verbatim>\<open>"1.5"\<close> and \<^verbatim>\<open>"abc"\<close> (a syntax error). The examples use these strings only.
\<close>

definition ParseFloat_example :: "string \<Rightarrow> error + float64" where
  "ParseFloat_example s =
     (if s = ''0'' then Inr (Fin 0)
      else if s = ''2'' then Inr (Fin 2)
      else if s = ''1.5'' then Inr (Fin (3/2))
      else Inl (NumError s))"

text \<open>A table of names for four values of the enum.\<close>

definition String_example :: "Currencies \<Rightarrow> string" where
  "String_example x =
     (if x = 0 then ''EUR'' else if x = 1 then ''USD'' else if x = 2 then ''GBP'' else ''JPY'')"

text \<open>
  A server with the example table and one connection, \<open>0\<close>, subscribed to EUR/USD and
  to EUR/JPY (JPY is not in the table).
\<close>

definition example_server :: "nat Currency" where
  "example_server =
     \<lparr>rates = example_table, log = [],
      subscriptions = [0 \<mapsto> [\<lparr>Base = 0, Destination = 1\<rparr>, \<lparr>Base = 0, Destination = 3\<rparr>]],
      sent = []\<rparr>"

text \<open>A stream on which no send fails.\<close>

definition Send_ok ::
  "(nat \<times> StreamingRateResponse) list \<Rightarrow> nat \<Rightarrow> StreamingRateResponse \<Rightarrow> error option" where
  "Send_ok history k m = None"


section \<open>Properties of the exchange-rate store\<close>

subsection \<open>Division\<close>

lemma expo_up_less: "x < 2 \<Longrightarrow> expo_up x = 0"
  by (subst expo_up.simps) simp

lemma expo_up_step: "2 \<le> x \<Longrightarrow> expo_up x = expo_up (x / 2) + 1"
  by (subst expo_up.simps) simp

lemma expo_down_stop: "1 \<le> x \<Longrightarrow> expo_down x = 0"
  by (subst expo_down.simps) simp

lemma expo_down_step: "0 < x \<Longrightarrow> x < 1 \<Longrightarrow> expo_down x = expo_down (2 * x) - 1"
  by (subst expo_down.simps) simp

lemmas float_eval = round64_def exponent_def rne_def Let_def
  expo_up_less expo_up_step expo_down_stop expo_down_step

lemma expo_up_eq:
  "2 ^ n \<le> x \<Longrightarrow> x < 2 ^ Suc n \<Longrightarrow> expo_up x = int n"
proof (induction n arbitrary: x)
  case 0
  then show ?case by (simp add: expo_up_less)
next
  case (Suc n)
  have "(1::real) \<le> 2 ^ n" by simp
  moreover from Suc.prems have "2 * 2 ^ n \<le> x" by simp
  ultimately have "2 \<le> x" by linarith
  moreover from Suc.prems have "expo_up (x / 2) = int n"
    by (intro Suc.IH) simp_all
  ultimately show ?case by (simp add: expo_up_step)
qed

lemma expo_down_eq:
  "1 / 2 ^ n \<le> x \<Longrightarrow> x < 2 / 2 ^ n \<Longrightarrow> x < 1 \<or> n = 0 \<Longrightarrow> expo_down x = - int n"
proof (induction n arbitrary: x)
  case 0
  then show ?case by (simp add: expo_down_stop)
next
  case (Suc n)
  have pos: "(0::real) < 1 / 2 ^ Suc n" by simp
  with Suc.prems have x: "0 < x" by linarith
  from Suc.prems have lt: "x < 1 / 2 ^ n" by simp
  have "(1::real) / 2 ^ n \<le> 1" by (simp add: one_le_power)
  with lt have x1: "x < 1" by linarith
  have "expo_down (2 * x) = - int n"
  proof (rule Suc.IH)
    from Suc.prems show "1 / 2 ^ n \<le> 2 * x" by simp
    from lt show "2 * x < 2 / 2 ^ n" by simp
    show "2 * x < 1 \<or> n = 0"
    proof (cases n)
      case 0
      then show ?thesis by simp
    next
      case (Suc m)
      with lt have "x < 1 / (2 * 2 ^ m)" by simp
      moreover have "(1::real) / (2 * 2 ^ m) \<le> 1 / 2"
        using one_le_power [of "2::real" m] by (simp add: field_simps)
      ultimately show ?thesis by linarith
    qed
  qed
  with x x1 show ?case by (simp add: expo_down_step)
qed

text \<open>The exponent is the one that brackets the number.\<close>

lemma exponent_eq:
  "2 powi e \<le> x \<Longrightarrow> x < 2 powi (e + 1) \<Longrightarrow> exponent x = e"
proof (cases "0 \<le> e")
  case True
  assume a: "2 powi e \<le> x" "x < 2 powi (e + 1)"
  from True have e: "e = int (nat e)" by simp
  from a True have lo: "2 ^ nat e \<le> x" by (simp add: power_int_def)
  from a True have hi: "x < 2 ^ Suc (nat e)"
    by (simp add: power_int_def nat_add_distrib)
  from lo have "1 \<le> x" using one_le_power [of "2::real" "nat e"] by linarith
  with expo_up_eq [OF lo hi] e show ?thesis by (simp add: exponent_def)
next
  case False
  assume a: "2 powi e \<le> x" "x < 2 powi (e + 1)"
  define n where "n = nat (- e)"
  from False have e: "e = - int n" and n: "0 < n" by (simp_all add: n_def)
  obtain m where m: "n = Suc m" using n by (cases n) auto
  have p: "(2::real) powi (- int k) = 1 / 2 ^ k" for k
    by (simp add: power_int_minus field_simps)
  have "e + 1 = - int m" by (simp add: e m)
  with a have "x < 2 powi (- int m)" by simp
  then have "x < 1 / 2 ^ m" by (simp only: p)
  then have hi: "x < 2 / 2 ^ n" by (simp add: m)
  from a have "2 powi (- int n) \<le> x" by (simp add: e)
  then have lo: "1 / 2 ^ n \<le> x" by (simp only: p)
  have "(2::real) / 2 ^ n \<le> 1" by (simp add: m one_le_power)
  with hi have x1: "x < 1" by linarith
  with expo_down_eq [OF lo hi] e show ?thesis by (simp add: exponent_def)
qed

text \<open>Every positive number has its exponent, and rounding stays within a unit.\<close>

lemma exponent_bracket:
  assumes "0 < x"
  shows "2 powi (exponent x) \<le> x \<and> x < 2 powi (exponent x + 1)"
proof -
  define k where "k = \<lfloor>Transcendental.log 2 x\<rfloor>"
  have "2 powr (of_int k) \<le> x \<and> x < 2 powr (of_int k + 1)"
    using floor_log_eq_powr_iff [of x 2 k] assms by (simp add: k_def)
  moreover have "(2::real) powr (of_int k) = 2 powi k"
    by (rule powr_real_of_int') simp_all
  moreover have "(2::real) powr (of_int k + 1) = 2 powi (k + 1)"
    using powr_real_of_int' [of "2::real" "k + 1"] by simp
  ultimately have b: "2 powi k \<le> x \<and> x < 2 powi (k + 1)" by simp
  then have "exponent x = k" by (intro exponent_eq) simp_all
  with b show ?thesis by simp
qed

lemma rne_bounds: "\<lfloor>t\<rfloor> \<le> rne t \<and> rne t \<le> \<lfloor>t\<rfloor> + 1"
  by (simp add: rne_def Let_def)

lemma rne_nearest: "\<bar>of_int (rne t) - t\<bar> \<le> 1 / 2"
proof -
  have "of_int \<lfloor>t\<rfloor> \<le> t" "t < of_int \<lfloor>t\<rfloor> + 1" by linarith+
  then show ?thesis by (auto simp: rne_def Let_def)
qed

text \<open>
  A finite result of rounding is a multiple of a power of two with a significand below
  \<open>2 ^ 53\<close> and an exponent within the range of the format.
\<close>

lemma round64_binary64:
  assumes "round64 x = Fin r"
  shows "\<exists>n k. r = of_int n * 2 powi k \<and> \<bar>n\<bar> < 2 ^ 53 \<and> - 1074 \<le> k \<and> k \<le> 971"
proof (cases "x = 0")
  case True
  with assms have "r = of_int 0 * 2 powi 0" by (simp add: round64_def)
  then show ?thesis by (intro exI [of _ 0]) simp
next
  case False
  define a where "a = \<bar>x\<bar>"
  define e where "e = max (exponent a) (- 1022)"
  define ulp :: real where "ulp = 2 powi (e - 52)"
  define n where "n = rne (a / ulp)"
  have a: "0 < a" using False by (simp add: a_def)
  have ulp: "0 < ulp" by (simp add: ulp_def)
  from assms False have y: "of_int n * ulp < 2 ^ 1024"
    and r: "r = (if x < 0 then - (of_int n * ulp) else of_int n * ulp)"
    by (auto simp: round64_def Let_def a_def e_def ulp_def n_def split: if_splits)
  have up: "2 powi (e + 1) = 2 ^ 53 * ulp"
    unfolding ulp_def by (simp add: power_int_diff power_int_add)
  have lo: "2 powi e = 2 ^ 52 * ulp"
    unfolding ulp_def by (simp add: power_int_diff)
  from exponent_bracket [OF a] have "a < 2 powi (exponent a + 1)" by simp
  also have "\<dots> \<le> 2 powi (e + 1)"
    by (rule power_int_increasing) (simp_all add: e_def)
  finally have "a < 2 powi (e + 1)" .
  then have "a < 2 ^ 53 * ulp" by (simp only: up)
  then have "a / ulp < 2 ^ 53" using ulp by (simp add: field_simps)
  then have "\<lfloor>a / ulp\<rfloor> < 2 ^ 53"
    using floor_less_iff [of "a / ulp" "2 ^ 53"] by simp
  with rne_bounds [of "a / ulp"] have n_hi: "n \<le> 2 ^ 53"
    unfolding n_def by linarith
  have "0 \<le> a / ulp" using a ulp by simp
  then have "0 \<le> \<lfloor>a / ulp\<rfloor>" by simp
  with rne_bounds [of "a / ulp"] have n_pos: "0 \<le> n"
    unfolding n_def by linarith
  have e_lo: "- 1022 \<le> e" by (simp add: e_def)
  have e_hi: "e < 1024"
  proof (rule ccontr)
    assume "\<not> e < 1024"
    then have big: "1024 \<le> e" by simp
    then have "e = exponent a" by (simp add: e_def)
    with exponent_bracket [OF a] have "2 powi e \<le> a" by simp
    then have "2 ^ 52 * ulp \<le> a" by (simp only: lo)
    then have "2 ^ 52 \<le> a / ulp" using ulp by (simp add: field_simps)
    then have "2 ^ 52 \<le> \<lfloor>a / ulp\<rfloor>"
      using le_floor_iff [of "2 ^ 52" "a / ulp"] by simp
    with rne_bounds [of "a / ulp"] have "2 ^ 52 \<le> n"
      unfolding n_def by linarith
    then have "of_int (2 ^ 52) \<le> (of_int n :: real)" by (simp only: of_int_le_iff)
    then have "(2::real) ^ 52 \<le> of_int n" by simp
    then have "2 ^ 52 * ulp \<le> of_int n * ulp" using ulp by simp
    then have "2 powi e \<le> of_int n * ulp" by (simp only: lo)
    moreover have "(2::real) powi 1024 \<le> 2 powi e"
      using big by (intro power_int_increasing) simp_all
    ultimately have "(2::real) ^ 1024 \<le> of_int n * ulp" by simp
    with y show False by simp
  qed
  show ?thesis
  proof (cases "n = 2 ^ 53")
    case True
    have e': "e \<noteq> 1023"
    proof
      assume "e = 1023"
      then have "of_int n * ulp = 2 ^ 1024"
        by (simp add: True ulp_def)
      with y show False by simp
    qed
    have "of_int n * ulp = of_int (2 ^ 52) * 2 powi (e - 51)"
      by (simp add: True ulp_def power_int_diff)
    with r have "r = of_int (if x < 0 then - (2 ^ 52) else 2 ^ 52) * 2 powi (e - 51)"
      by simp
    moreover have "\<bar>if x < 0 then - (2 ^ 52) else (2 ^ 52 :: int)\<bar> < 2 ^ 53" by simp
    moreover have "- 1074 \<le> e - 51" "e - 51 \<le> 971" using e_lo e_hi e' by simp_all
    ultimately show ?thesis by blast
  next
    case False
    with n_hi n_pos have "\<bar>if x < 0 then - n else n\<bar> < 2 ^ 53" by simp
    moreover from r have "r = of_int (if x < 0 then - n else n) * 2 powi (e - 52)"
      by (simp add: ulp_def)
    moreover have "- 1074 \<le> e - 52" "e - 52 \<le> 971" using e_lo e_hi by simp_all
    ultimately show ?thesis by blast
  qed
qed

text \<open>Every finite result of a division is a number of the format.\<close>

lemma fdiv_binary64:
  assumes "fdiv x y = Fin r"
  shows "\<exists>n k. r = of_int n * 2 powi k \<and> \<bar>n\<bar> < 2 ^ 53 \<and> - 1074 \<le> k \<and> k \<le> 971"
proof (cases "\<exists>a b. x = Fin a \<and> y = Fin b \<and> fdiv x y = round64 (a / b)")
  case True
  then obtain a b where "round64 (a / b) = Fin r" using assms by auto
  then show ?thesis by (rule round64_binary64)
next
  case False
  with assms have "r = of_int 0 * 2 powi 0"
    by (cases x; cases y) (auto simp: fdiv_def is_zero_def is_inf_def split: if_splits)
  then show ?thesis by (intro exI [of _ 0]) simp
qed

text \<open>
  Quotients that are rounded (\<open>1/3\<close> is not a binary64 number), that overflow and
  that underflow.
\<close>

lemma fdiv_rounds:
  "fdiv (Fin 1) (Fin 3) = Fin (6004799503160661 / 2 ^ 54)"
  by (simp add: fdiv_def is_zero_def is_inf_def float_eval)

lemma fdiv_overflows:
  "fdiv (Fin (2 ^ 1000)) (Fin (1 / 2 ^ 1000)) = PInf"
proof -
  have "exponent (2 ^ 2000) = 2000"
    by (rule exponent_eq) simp_all
  then have "round64 (2 ^ 2000) = PInf"
    by (simp add: round64_def rne_def Let_def)
  moreover have "(2::real) ^ 1000 / (1 / 2 ^ 1000) = 2 ^ 2000"
    by (simp add: power_add [symmetric])
  ultimately show ?thesis
    by (simp add: fdiv_def is_zero_def is_inf_def)
qed

lemma fdiv_underflows:
  "fdiv (Fin (1 / 2 ^ 1000)) (Fin (2 ^ 1000)) = Fin 0"
proof -
  have "exponent (1 / 2 ^ 2000) = - 2000"
    by (rule exponent_eq) (simp_all add: power_int_minus field_simps)
  then have "round64 (1 / 2 ^ 2000) = Fin 0"
    by (simp add: round64_def rne_def Let_def power_int_minus field_simps)
  moreover have "(1::real) / 2 ^ 1000 / 2 ^ 1000 = 1 / 2 ^ 2000"
    by (simp add: power_add [symmetric])
  ultimately show ?thesis
    by (simp add: fdiv_def is_zero_def is_inf_def)
qed

lemma round64_one: "round64 1 = Fin 1"
  by (simp add: float_eval)

lemma fdiv_self: "is_finite_nonzero r \<Longrightarrow> fdiv r r = Fin 1"
  by (cases r) (auto simp: fdiv_def is_finite_nonzero_def is_zero_def is_inf_def round64_one)

subsection \<open>GetRate\<close>

text \<open>
  C1, as amended. For every table and every pair of codes that are both present,
  \<^verbatim>\<open>GetRate\<close> of the data layer succeeds and returns the quotient of the destination's
  rate by the base's rate; for a code whose rate is finite and not zero,
  \<^verbatim>\<open>GetRate(x, x)\<close> returns 1.
\<close>

theorem GetRate_quotient:
  "(e base = Some br \<and> e dest = Some dr \<longrightarrow> GetRate e base dest = (fdiv dr br, None)) \<and>
   (e x = Some r \<and> is_finite_nonzero r \<longrightarrow> GetRate e x x = (Fin 1, None))"
  by (simp add: GetRate_def fdiv_self)

text \<open>
  USD to GBP is the binary64 quotient of 0.75 by 1.25, the number next to 0.6.
\<close>

theorem GetRate_quotient_witness:
  "example_table ''USD'' = Some (Fin (5/4)) \<and> example_table ''GBP'' = Some (Fin (3/4)) \<and>
   is_finite_nonzero (Fin (5/4)) \<and>
   GetRate example_table ''USD'' ''GBP'' = (Fin (5404319552844595 / 2 ^ 53), None) \<and>
   GetRate example_table ''USD'' ''USD'' = (Fin 1, None)"
  using GetRate_quotient [of example_table "''USD''" "Fin (5/4)" "''GBP''" "Fin (3/4)"
      "''USD''" "Fin (5/4)"]
  by (simp add: example_table_def is_finite_nonzero_def fdiv_def is_zero_def is_inf_def
      float_eval)

text \<open>
  C1 as stated fails for a code whose rate is zero (the feed's string \<^verbatim>\<open>"0"\<close> parses
  to it): the quotient \<open>0/0\<close> is NaN, not 1.
\<close>

theorem GetRate_same_code_counterexample:
  "[''USD'' \<mapsto> Fin 0] ''USD'' = Some (Fin 0) \<and>
   GetRate [''USD'' \<mapsto> Fin 0] ''USD'' ''USD'' = (NaN, None) \<and>
   GetRate [''USD'' \<mapsto> Fin 0] ''USD'' ''USD'' \<noteq> (Fin 1, None)"
  by (simp add: GetRate_def fdiv_def is_zero_def)

text \<open>
  C9. When the base code is absent from the table, \<^verbatim>\<open>GetRate\<close> of the data layer fails
  with the error that names the base code; when the base is present and the destination
  is absent, with the error that names the destination code. The value returned beside
  the error is Go's zero value.
\<close>

theorem GetRate_absent:
  "(e base = None \<longrightarrow> GetRate e base dest = (Fin 0, Some (RateNotFound base))) \<and>
   (e base \<noteq> None \<and> e dest = None \<longrightarrow>
      GetRate e base dest = (Fin 0, Some (RateNotFound dest)))"
  by (auto simp: GetRate_def)

theorem GetRate_absent_witness:
  "example_table ''JPY'' = None \<and> example_table ''USD'' \<noteq> None \<and>
   GetRate example_table ''JPY'' ''USD'' = (Fin 0, Some (RateNotFound ''JPY'')) \<and>
   GetRate example_table ''USD'' ''JPY'' = (Fin 0, Some (RateNotFound ''JPY''))"
  using GetRate_absent [of example_table "''JPY''" "''USD''"]
    GetRate_absent [of example_table "''USD''" "''JPY''"]
  by (simp add: example_table_def)

subsection \<open>The loop that stores the feed\<close>

lemma store_cubes_stored:
  "fst (store_cubes P cs e) = stored P (parsed_prefix P cs) e"
  by (induction cs arbitrary: e) (auto simp: stored_def parsed_prefix_def split: sum.splits)

lemma store_cubes_ok:
  "snd (store_cubes P cs e) = None \<Longrightarrow> parsed_prefix P cs = cs"
  by (induction cs arbitrary: e) (auto simp: parsed_prefix_def split: sum.splits)

lemma stored_frame:
  "cur \<notin> Currency ` set cs \<Longrightarrow> stored P cs e cur = e cur"
  by (induction cs arbitrary: e) (auto simp: stored_def)

lemma dom_stored: "dom (stored P cs e) = dom e \<union> Currency ` set cs"
  by (induction cs arbitrary: e) (auto simp: stored_def)

subsection \<open>Refreshing the table\<close>

text \<open>
  C3, as amended. When the request for the feed fails, or the response has a status
  other than 200, the table is left as it was. When a rate string does not parse, the
  table holds, besides what it held, the entries of the feed that precede the first
  such string; every code that is not among those entries maps to the same value as
  before, or is still absent.
\<close>

theorem GetRates_failure_table:
  "fst (GetRates P (GetFailed er) e) = e \<and>
   (st \<noteq> 200 \<longrightarrow> GetRates P (Response st cubes) e = (e, Some (BadStatus st))) \<and>
   (GetRates P (Response 200 cubes) e = (e', Some err) \<longrightarrow>
      e' = stored P (parsed_prefix P cubes) e \<and>
      (\<forall>cur. cur \<notin> Currency ` set (parsed_prefix P cubes) \<longrightarrow> e' cur = e cur))"
proof -
  have "e' = stored P (parsed_prefix P cubes) e"
    if "GetRates P (Response 200 cubes) e = (e', Some err)"
  proof -
    from that have "fst (store_cubes P cubes e) = e'"
      by (auto simp: GetRates_def split: prod.splits option.splits)
    then show ?thesis by (simp add: store_cubes_stored)
  qed
  then show ?thesis
    by (auto simp: GetRates_def stored_frame)
qed

theorem GetRates_failure_table_witness:
  "(500::int) \<noteq> 200 \<and>
   GetRates ParseFloat_example (Response 500 []) example_table
     = (example_table, Some (BadStatus 500)) \<and>
   GetRates ParseFloat_example
      (Response 200 [\<lparr>Currency = ''USD'', Rate = ''1.5''\<rparr>, \<lparr>Currency = ''GBP'', Rate = ''abc''\<rparr>])
      [''JPY'' \<mapsto> Fin 2]
     = ([''JPY'' \<mapsto> Fin 2, ''USD'' \<mapsto> Fin (3/2)], Some (NumError ''abc'')) \<and>
   parsed_prefix ParseFloat_example
      [\<lparr>Currency = ''USD'', Rate = ''1.5''\<rparr>, \<lparr>Currency = ''GBP'', Rate = ''abc''\<rparr>]
     = [\<lparr>Currency = ''USD'', Rate = ''1.5''\<rparr>] \<and>
   [''JPY'' \<mapsto> Fin 2, ''USD'' \<mapsto> Fin (3/2)]
     = stored ParseFloat_example [\<lparr>Currency = ''USD'', Rate = ''1.5''\<rparr>] [''JPY'' \<mapsto> Fin 2] \<and>
   [''JPY'' \<mapsto> Fin 2, ''USD'' \<mapsto> Fin (3/2)] ''JPY'' = [''JPY'' \<mapsto> Fin 2] ''JPY''"
proof -
  have a: "GetRates ParseFloat_example
      (Response 200 [\<lparr>Currency = ''USD'', Rate = ''1.5''\<rparr>, \<lparr>Currency = ''GBP'', Rate = ''abc''\<rparr>])
      [''JPY'' \<mapsto> Fin 2]
     = ([''JPY'' \<mapsto> Fin 2, ''USD'' \<mapsto> Fin (3/2)], Some (NumError ''abc''))"
    by (simp add: GetRates_def ParseFloat_example_def)
  have b: "parsed_prefix ParseFloat_example
      [\<lparr>Currency = ''USD'', Rate = ''1.5''\<rparr>, \<lparr>Currency = ''GBP'', Rate = ''abc''\<rparr>]
     = [\<lparr>Currency = ''USD'', Rate = ''1.5''\<rparr>]"
    by (simp add: parsed_prefix_def ParseFloat_example_def)
  from GetRates_failure_table [of ParseFloat_example "TransportError ''timeout''"
      "[''JPY'' \<mapsto> Fin 2]" 200
      "[\<lparr>Currency = ''USD'', Rate = ''1.5''\<rparr>, \<lparr>Currency = ''GBP'', Rate = ''abc''\<rparr>]"
      "[''JPY'' \<mapsto> Fin 2, ''USD'' \<mapsto> Fin (3/2)]" "NumError ''abc''"] a b
  have c: "[''JPY'' \<mapsto> Fin 2, ''USD'' \<mapsto> Fin (3/2)]
     = stored ParseFloat_example [\<lparr>Currency = ''USD'', Rate = ''1.5''\<rparr>] [''JPY'' \<mapsto> Fin 2]"
    by simp
  from GetRates_failure_table [of ParseFloat_example "TransportError ''timeout''"
      example_table 500 "[]"]
  have d: "GetRates ParseFloat_example (Response 500 []) example_table
     = (example_table, Some (BadStatus 500))"
    by simp
  from a b d c [symmetric] show ?thesis by simp
qed

text \<open>
  C3 as stated fails when a rate string does not parse: the entries before it are
  already in the table. Here the rate of USD has changed from 2 to 1.5 although the
  fetch failed on the entry for GBP.
\<close>

theorem GetRates_parse_failure_counterexample:
  "GetRates ParseFloat_example
      (Response 200 [\<lparr>Currency = ''USD'', Rate = ''1.5''\<rparr>, \<lparr>Currency = ''GBP'', Rate = ''abc''\<rparr>])
      [''USD'' \<mapsto> Fin 2]
     = ([''USD'' \<mapsto> Fin (3/2)], Some (NumError ''abc'')) \<and>
   [''USD'' \<mapsto> Fin (3/2)] ''USD'' \<noteq> [''USD'' \<mapsto> Fin 2] ''USD''"
  by (simp add: GetRates_def ParseFloat_example_def)

text \<open>
  C4 does not hold of the code. When the request for the feed fails, \<^verbatim>\<open>GetRates\<close>
  returns \<^verbatim>\<open>nil\<close>, for every error of the request and every table; so does the
  earlier revision \<^verbatim>\<open>getRates\<close>, and \<^verbatim>\<open>NewRates\<close> then returns an empty table and no
  error. The two failures tested next in the source, a status other than 200 and a
  rate that does not parse, do return their errors.
\<close>

theorem GetRates_request_failure_returns_nil:
  "GetRates ParseFloat (GetFailed err) e = (e, None) \<and>
   getRates ParseFloat (GetFailed err) e = (e, None) \<and>
   NewRates ParseFloat (GetFailed err) = (Map.empty, None)"
  by (simp add: GetRates_def getRates_def NewRates_def)

text \<open>
  C5, as amended. After a successful update the table's codes are the codes it had
  before, the codes of the feed and EUR: the entries are merged into the table, and a
  code that is absent from the feed (and is not EUR) keeps the value it had.
\<close>

theorem GetRates_success_domain:
  "GetRates P (Response st cubes) e = (e', None) \<Longrightarrow>
     dom e' = dom e \<union> Currency ` set cubes \<union> {''EUR''} \<and>
     (\<forall>cur. cur \<notin> Currency ` set cubes \<and> cur \<noteq> ''EUR'' \<longrightarrow> e' cur = e cur)"
proof -
  assume a: "GetRates P (Response st cubes) e = (e', None)"
  then obtain e1 where s: "store_cubes P cubes e = (e1, None)"
    and e': "e' = e1(''EUR'' \<mapsto> Fin 1)"
    by (auto simp: GetRates_def split: if_splits prod.splits option.splits)
  from s have "parsed_prefix P cubes = cubes"
    by (intro store_cubes_ok [of P cubes e]) simp
  with s store_cubes_stored [of P cubes e] have e1: "e1 = stored P cubes e" by simp
  show ?thesis unfolding e' e1 by (auto simp: dom_stored stored_frame)
qed

theorem GetRates_success_domain_witness:
  "GetRates ParseFloat_example (Response 200 [\<lparr>Currency = ''USD'', Rate = ''1.5''\<rparr>])
      [''JPY'' \<mapsto> Fin 2]
     = ([''JPY'' \<mapsto> Fin 2, ''USD'' \<mapsto> Fin (3/2), ''EUR'' \<mapsto> Fin 1], None) \<and>
   dom [''JPY'' \<mapsto> Fin 2, ''USD'' \<mapsto> Fin (3/2), ''EUR'' \<mapsto> Fin 1]
     = {''JPY'', ''USD'', ''EUR''} \<and>
   ''JPY'' \<notin> Currency ` set [\<lparr>Currency = ''USD'', Rate = ''1.5''\<rparr>] \<and> ''JPY'' \<noteq> ''EUR'' \<and>
   [''JPY'' \<mapsto> Fin 2, ''USD'' \<mapsto> Fin (3/2), ''EUR'' \<mapsto> Fin 1] ''JPY''
     = [''JPY'' \<mapsto> Fin 2] ''JPY''"
proof -
  have a: "GetRates ParseFloat_example (Response 200 [\<lparr>Currency = ''USD'', Rate = ''1.5''\<rparr>])
      [''JPY'' \<mapsto> Fin 2]
     = ([''JPY'' \<mapsto> Fin 2, ''USD'' \<mapsto> Fin (3/2), ''EUR'' \<mapsto> Fin 1], None)"
    by (simp add: GetRates_def ParseFloat_example_def)
  from GetRates_success_domain [OF a] a show ?thesis by auto
qed

text \<open>
  C5 as stated fails: JPY is in the table before the update and is absent from the
  feed, and it is still in the table after the successful update.
\<close>

theorem GetRates_keeps_old_codes_counterexample:
  "GetRates ParseFloat_example (Response 200 [\<lparr>Currency = ''USD'', Rate = ''1.5''\<rparr>])
      [''JPY'' \<mapsto> Fin 2]
     = ([''JPY'' \<mapsto> Fin 2, ''USD'' \<mapsto> Fin (3/2), ''EUR'' \<mapsto> Fin 1], None) \<and>
   ''JPY'' \<in> dom [''JPY'' \<mapsto> Fin 2, ''USD'' \<mapsto> Fin (3/2), ''EUR'' \<mapsto> Fin 1] \<and>
   ''JPY'' \<notin> Currency ` set [\<lparr>Currency = ''USD'', Rate = ''1.5''\<rparr>] \<union> {''EUR''}"
  by (simp add: GetRates_def ParseFloat_example_def)

text \<open>
  C8. After every successful update of the table from the feed (a response with status
  200 all of whose rates parse), EUR is present and maps to 1, whatever the feed
  contains.
\<close>

theorem GetRates_sets_EUR:
  "GetRates P (Response st cubes) e = (e', None) \<Longrightarrow> e' ''EUR'' = Some (Fin 1)"
  by (auto simp: GetRates_def split: if_splits prod.splits option.splits)

text \<open>A feed without EUR, and a feed that gives EUR the rate 2.\<close>

theorem GetRates_sets_EUR_witness:
  "GetRates ParseFloat_example (Response 200 [\<lparr>Currency = ''USD'', Rate = ''1.5''\<rparr>]) Map.empty
     = ([''USD'' \<mapsto> Fin (3/2), ''EUR'' \<mapsto> Fin 1], None) \<and>
   GetRates ParseFloat_example (Response 200 [\<lparr>Currency = ''EUR'', Rate = ''2''\<rparr>]) Map.empty
     = ([''EUR'' \<mapsto> Fin 1], None) \<and>
   [''USD'' \<mapsto> Fin (3/2), ''EUR'' \<mapsto> Fin 1] ''EUR'' = Some (Fin 1) \<and>
   [''EUR'' \<mapsto> Fin 1] ''EUR'' = Some (Fin 1)"
proof -
  have a: "GetRates ParseFloat_example
      (Response 200 [\<lparr>Currency = ''USD'', Rate = ''1.5''\<rparr>]) Map.empty
     = ([''USD'' \<mapsto> Fin (3/2), ''EUR'' \<mapsto> Fin 1], None)"
    by (simp add: GetRates_def ParseFloat_example_def)
  have b: "GetRates ParseFloat_example
      (Response 200 [\<lparr>Currency = ''EUR'', Rate = ''2''\<rparr>]) Map.empty
     = ([''EUR'' \<mapsto> Fin 1], None)"
    by (simp add: GetRates_def ParseFloat_example_def)
  from a b GetRates_sets_EUR [OF a] GetRates_sets_EUR [OF b] show ?thesis by simp
qed

section \<open>Properties of the server\<close>

subsection \<open>GetRate\<close>

text \<open>
  C2. For every request whose base equals its destination, and every state of the
  server, \<^verbatim>\<open>Currency.GetRate\<close> returns no response and the error of a status with code
  \<open>InvalidArgument\<close> that carries the request as its detail.
\<close>

theorem Currency_GetRate_same_currency:
  "Base rr = Destination rr \<Longrightarrow>
     fst (Currency_GetRate String c rr) =
       (None, Some (StatusError
          \<lparr>code = InvalidArgument,
           message = ''Base currency '' @ String (Base rr)
              @ '' cannot be same as the destination currency%!(EXTRA string=''
              @ String (Destination rr) @ '')'',
           details = [rr]\<rparr>))"
  by (simp add: Currency_GetRate_def WithDetails_def Newf_def Let_def)

text \<open>USD to USD, with USD in the table.\<close>

theorem Currency_GetRate_same_currency_witness:
  "Base \<lparr>Base = 1, Destination = 1\<rparr> = Destination \<lparr>Base = 1, Destination = 1\<rparr> \<and>
   example_table ''USD'' \<noteq> None \<and>
   fst (Currency_GetRate String_example example_server \<lparr>Base = 1, Destination = 1\<rparr>) =
     (None, Some (StatusError
        \<lparr>code = InvalidArgument,
         message = ''Base currency USD cannot be same as the destination currency%!(EXTRA string=USD)'',
         details = [\<lparr>Base = 1, Destination = 1\<rparr>]\<rparr>))"
  using Currency_GetRate_same_currency
    [of "\<lparr>Base = 1, Destination = 1\<rparr>" String_example example_server]
  by (simp add: String_example_def example_table_def)

subsection \<open>SubscribeRates\<close>

lemma RateRequest_eq: "(v = rr) = (Base v = Base rr \<and> Destination v = Destination rr)"
  for v rr :: RateRequest
  by (cases v, cases rr) auto

lemma check_exists_mem:
  "rr \<in> set rrs \<Longrightarrow> check_exists rrs rr = (Some (already_exists rr), [])"
  by (induction rrs) (auto simp: WithDetails_def Newf_def already_exists_def RateRequest_eq)

lemma check_exists_new:
  "rr \<notin> set rrs \<Longrightarrow> check_exists rrs rr = (None, [])"
  by (induction rrs) (auto simp: RateRequest_eq)

lemma subscribe_mem:
  "rr \<in> set (subscriptions_of c src) \<Longrightarrow>
     subscribe src rr c =
       c\<lparr>log := log c @ [Info ''Handle Client request''],
         sent := sent c @ [(src, StreamingRateResponse_Error (already_exists rr))]\<rparr>"
  by (simp add: subscribe_def subscriptions_of_def log_Info_def check_exists_mem)

lemma subscribe_new:
  "rr \<notin> set (subscriptions_of c src) \<Longrightarrow>
     subscribe src rr c =
       c\<lparr>log := log c @ [Info ''Handle Client request''],
         subscriptions := (subscriptions c)(src \<mapsto> subscriptions_of c src @ [rr])\<rparr>"
  by (simp add: subscribe_def subscriptions_of_def log_Info_def check_exists_new)

lemma SubscribeRates_requests:
  "SubscribeRates src (map Request rqs) c = (Receiving, fold (subscribe src) rqs c)"
  by (induction rqs arbitrary: c) simp_all

text \<open>
  C6. A request for a pair that is already recorded for the connection is answered on
  the stream with the status \<open>AlreadyExists\<close> carrying the request, the connection's
  list of subscriptions stays as it is, and nothing else changes but the log; a pair
  that is not yet recorded is appended to the list. In both cases the call has not
  returned: it is in the loop, waiting in \<^verbatim>\<open>Recv\<close>, and the loop goes on with the next
  result of \<^verbatim>\<open>Recv\<close>; a new pair that follows a refused one is appended. After any
  sequence of requests the call is still receiving, each request having been handled in
  turn. (The code compares bases and destinations; by \<open>RateRequest_eq\<close> that is
  equality of the requests.)
\<close>

theorem subscribe_existing_or_new:
  "(rr \<in> set (subscriptions_of c src) \<longrightarrow>
      subscribe src rr c =
        c\<lparr>log := log c @ [Info ''Handle Client request''],
          sent := sent c @ [(src, StreamingRateResponse_Error (already_exists rr))]\<rparr> \<and>
      subscriptions_of (subscribe src rr c) src = subscriptions_of c src \<and>
      SubscribeRates src [Request rr] c =
        (Receiving,
         c\<lparr>log := log c @ [Info ''Handle Client request''],
           sent := sent c @ [(src, StreamingRateResponse_Error (already_exists rr))]\<rparr>) \<and>
      (\<forall>rr'. rr' \<notin> set (subscriptions_of c src) \<longrightarrow>
         SubscribeRates src [Request rr, Request rr'] c =
           (Receiving,
            c\<lparr>log := log c @ [Info ''Handle Client request'', Info ''Handle Client request''],
              subscriptions := (subscriptions c)(src \<mapsto> subscriptions_of c src @ [rr']),
              sent := sent c @ [(src, StreamingRateResponse_Error (already_exists rr))]\<rparr>))) \<and>
   (rr \<notin> set (subscriptions_of c src) \<longrightarrow>
      subscribe src rr c =
        c\<lparr>log := log c @ [Info ''Handle Client request''],
          subscriptions := (subscriptions c)(src \<mapsto> subscriptions_of c src @ [rr])\<rparr> \<and>
      subscriptions_of (subscribe src rr c) src = subscriptions_of c src @ [rr] \<and>
      SubscribeRates src [Request rr] c =
        (Receiving,
         c\<lparr>log := log c @ [Info ''Handle Client request''],
           subscriptions := (subscriptions c)(src \<mapsto> subscriptions_of c src @ [rr])\<rparr>)) \<and>
   SubscribeRates src (Request rr # rs) c = SubscribeRates src rs (subscribe src rr c) \<and>
   SubscribeRates src (map Request rqs) c = (Receiving, fold (subscribe src) rqs c)"
proof -
  have two: "SubscribeRates src [Request rr, Request rr'] c =
           (Receiving,
            c\<lparr>log := log c @ [Info ''Handle Client request'', Info ''Handle Client request''],
              subscriptions := (subscriptions c)(src \<mapsto> subscriptions_of c src @ [rr']),
              sent := sent c @ [(src, StreamingRateResponse_Error (already_exists rr))]\<rparr>)"
    if old: "rr \<in> set (subscriptions_of c src)" and new: "rr' \<notin> set (subscriptions_of c src)"
    for rr'
  proof -
    define c1 where "c1 = c\<lparr>log := log c @ [Info ''Handle Client request''],
          sent := sent c @ [(src, StreamingRateResponse_Error (already_exists rr))]\<rparr>"
    have s1: "subscribe src rr c = c1"
      using old by (simp add: subscribe_mem c1_def)
    have same: "subscriptions_of c1 src = subscriptions_of c src"
      by (simp add: c1_def subscriptions_of_def)
    with new have "rr' \<notin> set (subscriptions_of c1 src)" by simp
    then have "subscribe src rr' c1 =
        c1\<lparr>log := log c1 @ [Info ''Handle Client request''],
          subscriptions := (subscriptions c1)(src \<mapsto> subscriptions_of c1 src @ [rr'])\<rparr>"
      by (rule subscribe_new)
    then show ?thesis
      by (simp add: s1 same) (simp add: c1_def)
  qed
  show ?thesis
    using two
    by (simp add: subscribe_mem subscribe_new SubscribeRates_requests)
       (simp add: subscriptions_of_def)
qed

text \<open>
  Connection 0 of the example subscribes to EUR/USD a second time and then to EUR/GBP.
\<close>

theorem subscribe_existing_or_new_witness:
  "\<lparr>Base = 0, Destination = 1\<rparr> \<in> set (subscriptions_of example_server 0) \<and>
   \<lparr>Base = 0, Destination = 2\<rparr> \<notin> set (subscriptions_of example_server 0) \<and>
   SubscribeRates 0 [Request \<lparr>Base = 0, Destination = 1\<rparr>] example_server =
     (Receiving,
      example_server\<lparr>log := [Info ''Handle Client request''],
        sent := [(0, StreamingRateResponse_Error (already_exists \<lparr>Base = 0, Destination = 1\<rparr>))]\<rparr>) \<and>
   subscriptions_of (subscribe 0 \<lparr>Base = 0, Destination = 1\<rparr> example_server) 0
     = [\<lparr>Base = 0, Destination = 1\<rparr>, \<lparr>Base = 0, Destination = 3\<rparr>] \<and>
   SubscribeRates 0
      [Request \<lparr>Base = 0, Destination = 1\<rparr>, Request \<lparr>Base = 0, Destination = 2\<rparr>]
      example_server =
     (Receiving,
      example_server
        \<lparr>log := [Info ''Handle Client request'', Info ''Handle Client request''],
         subscriptions := (subscriptions example_server)(0 \<mapsto>
           [\<lparr>Base = 0, Destination = 1\<rparr>, \<lparr>Base = 0, Destination = 3\<rparr>,
            \<lparr>Base = 0, Destination = 2\<rparr>]),
         sent := [(0, StreamingRateResponse_Error (already_exists \<lparr>Base = 0, Destination = 1\<rparr>))]\<rparr>) \<and>
   SubscribeRates 0 [Request \<lparr>Base = 0, Destination = 2\<rparr>] example_server =
     (Receiving,
      example_server\<lparr>log := [Info ''Handle Client request''],
        subscriptions := (subscriptions example_server)(0 \<mapsto>
           [\<lparr>Base = 0, Destination = 1\<rparr>, \<lparr>Base = 0, Destination = 3\<rparr>,
            \<lparr>Base = 0, Destination = 2\<rparr>])\<rparr>) \<and>
   subscriptions_of (subscribe 0 \<lparr>Base = 0, Destination = 2\<rparr> example_server) 0
     = [\<lparr>Base = 0, Destination = 1\<rparr>, \<lparr>Base = 0, Destination = 3\<rparr>,
        \<lparr>Base = 0, Destination = 2\<rparr>]"
proof -
  have a: "subscriptions_of example_server 0
      = [\<lparr>Base = 0, Destination = 1\<rparr>, \<lparr>Base = 0, Destination = 3\<rparr>]"
    by (simp add: subscriptions_of_def example_server_def)
  have b: "sent example_server = []" "log example_server = []"
    by (simp_all add: example_server_def)
  have old: "\<lparr>Base = 0, Destination = 1\<rparr> \<in> set (subscriptions_of example_server 0)"
    by (simp add: a)
  have new: "\<lparr>Base = 0, Destination = 2\<rparr> \<notin> set (subscriptions_of example_server 0)"
    by (simp add: a)
  note t1 = subscribe_existing_or_new [of "\<lparr>Base = 0, Destination = 1\<rparr>" example_server 0
      "[]" "[]"]
  note t2 = subscribe_existing_or_new [of "\<lparr>Base = 0, Destination = 2\<rparr>" example_server 0
      "[]" "[]"]
  from t1 old have one: "SubscribeRates 0 [Request \<lparr>Base = 0, Destination = 1\<rparr>] example_server =
     (Receiving,
      example_server\<lparr>log := log example_server @ [Info ''Handle Client request''],
        sent := sent example_server
          @ [(0, StreamingRateResponse_Error (already_exists \<lparr>Base = 0, Destination = 1\<rparr>))]\<rparr>)"
    and same: "subscriptions_of (subscribe 0 \<lparr>Base = 0, Destination = 1\<rparr> example_server) 0
      = subscriptions_of example_server 0"
    and two: "SubscribeRates 0
      [Request \<lparr>Base = 0, Destination = 1\<rparr>, Request \<lparr>Base = 0, Destination = 2\<rparr>]
      example_server =
     (Receiving,
      example_server
        \<lparr>log := log example_server
           @ [Info ''Handle Client request'', Info ''Handle Client request''],
         subscriptions := (subscriptions example_server)(0 \<mapsto>
           subscriptions_of example_server 0 @ [\<lparr>Base = 0, Destination = 2\<rparr>]),
         sent := sent example_server
           @ [(0, StreamingRateResponse_Error (already_exists \<lparr>Base = 0, Destination = 1\<rparr>))]\<rparr>)"
    using new by blast+
  from t2 new have three: "SubscribeRates 0 [Request \<lparr>Base = 0, Destination = 2\<rparr>] example_server =
     (Receiving,
      example_server\<lparr>log := log example_server @ [Info ''Handle Client request''],
        subscriptions := (subscriptions example_server)(0 \<mapsto>
           subscriptions_of example_server 0 @ [\<lparr>Base = 0, Destination = 2\<rparr>])\<rparr>)"
    and app: "subscriptions_of (subscribe 0 \<lparr>Base = 0, Destination = 2\<rparr> example_server) 0
      = subscriptions_of example_server 0 @ [\<lparr>Base = 0, Destination = 2\<rparr>]"
    by blast+
  show ?thesis
    unfolding one two three same app a using b by simp
qed

lemma subscribe_set:
  "set (subscriptions_of (subscribe src rr c) src) = insert rr (set (subscriptions_of c src))"
  by (cases "rr \<in> set (subscriptions_of c src)")
     (auto simp: subscribe_mem subscribe_new subscriptions_of_def)

lemma subscribe_prefix:
  "prefix (subscriptions_of c src) (subscriptions_of (subscribe src rr c) src)"
  by (cases "rr \<in> set (subscriptions_of c src)")
     (auto simp: subscribe_mem subscribe_new subscriptions_of_def)

lemma subscribe_others:
  "k \<noteq> src \<Longrightarrow> subscriptions (subscribe src rr c) k = subscriptions c k"
  by (cases "rr \<in> set (subscriptions_of c src)")
     (auto simp: subscribe_mem subscribe_new)

lemma SubscribeRates_subscriptions:
  "SubscribeRates src rs c = (out, c') \<Longrightarrow>
     prefix (subscriptions_of c src) (subscriptions_of c' src) \<and>
     set (subscriptions_of c' src) = set (subscriptions_of c src) \<union> set (received rs) \<and>
     (\<forall>k. k \<noteq> src \<longrightarrow> subscriptions c' k = subscriptions c k)"
proof (induction src rs c rule: SubscribeRates.induct)
  case (1 src c)
  then show ?case by auto
next
  case (2 src err rs c)
  then show ?case
    by (auto simp: log_Info_def log_Error_def subscriptions_of_def split: if_splits)
next
  case (3 src rr rs c)
  from 3 have ih:
    "prefix (subscriptions_of (subscribe src rr c) src) (subscriptions_of c' src) \<and>
     set (subscriptions_of c' src)
       = set (subscriptions_of (subscribe src rr c) src) \<union> set (received rs) \<and>
     (\<forall>k. k \<noteq> src \<longrightarrow> subscriptions c' k = subscriptions (subscribe src rr c) k)"
    by simp
  have "prefix (subscriptions_of c src) (subscriptions_of c' src)"
    using ih subscribe_prefix [of c src rr] prefix_order.trans by blast
  then show ?case using ih by (auto simp: subscribe_set subscribe_others)
qed

subsection \<open>handleUpdates\<close>

lemma send_rates_fields:
  "rates (send_rates String Send k v c) = rates c \<and>
   subscriptions (send_rates String Send k v c) = subscriptions c"
  by (induction v arbitrary: c) (auto simp: Let_def log_Error_def split: prod.splits)

lemma send_rates_sent:
  "sent (send_rates String Send k v c) =
     sent c @ map (\<lambda>rr. (k, update_for String (rates c) rr)) v"
  by (induction v arbitrary: c)
     (auto simp: Let_def log_Error_def update_for_def split: prod.splits)

lemma send_rates_step:
  "\<exists>c3. send_rates String Send k (rr # v) c = send_rates String Send k v c3 \<and>
     rates c3 = rates c \<and> set (log c) \<subseteq> set (log c3) \<and>
     (snd (GetRate (rates c) (String (Base rr)) (String (Destination rr))) \<noteq> None \<longrightarrow>
        Error ''Unable to get update rate'' \<in> set (log c3))"
proof -
  obtain r err where g: "GetRate (rates c) (String (Base rr)) (String (Destination rr)) = (r, err)"
    by (cases "GetRate (rates c) (String (Base rr)) (String (Destination rr))")
  define m where "m = StreamingRateResponse_RateResponse
      \<lparr>Base = Base rr, Destination = Destination rr, Rate_resp = r\<rparr>"
  define c1 where "c1 = (if err \<noteq> None then log_Error ''Unable to get update rate'' c else c)"
  define c2 where "c2 = c1\<lparr>sent := sent c1 @ [(k, m)]\<rparr>"
  define c3 where "c3 = (if Send (sent c1) k m \<noteq> None
      then log_Error ''Unable to get update rate'' c2 else c2)"
  have step: "send_rates String Send k (rr # v) c = send_rates String Send k v c3"
    using g by (simp add: Let_def c3_def c2_def c1_def m_def)
  have "rates c3 = rates c"
    by (simp add: c3_def c2_def c1_def log_Error_def)
  moreover have "set (log c) \<subseteq> set (log c3)"
    by (auto simp: c3_def c2_def c1_def log_Error_def)
  moreover have "Error ''Unable to get update rate'' \<in> set (log c3)" if "err \<noteq> None"
    using that by (simp add: c3_def c2_def c1_def log_Error_def)
  ultimately show ?thesis using step g by auto
qed

lemma send_rates_log_mono:
  "set (log c) \<subseteq> set (log (send_rates String Send k v c))"
proof (induction v arbitrary: c)
  case Nil
  then show ?case by simp
next
  case (Cons rr v)
  from send_rates_step [of String Send k rr v c] obtain c3
    where "send_rates String Send k (rr # v) c = send_rates String Send k v c3"
      and "set (log c) \<subseteq> set (log c3)" by blast
  with Cons.IH [of c3] show ?case by auto
qed

lemma send_rates_log:
  "rr \<in> set v \<Longrightarrow>
   snd (GetRate (rates c) (String (Base rr)) (String (Destination rr))) \<noteq> None \<Longrightarrow>
     Error ''Unable to get update rate'' \<in> set (log (send_rates String Send k v c))"
proof (induction v arbitrary: c)
  case Nil
  then show ?case by simp
next
  case (Cons a v)
  from send_rates_step [of String Send k a v c] obtain c3
    where step: "send_rates String Send k (a # v) c = send_rates String Send k v c3"
      and r: "rates c3 = rates c"
      and e: "snd (GetRate (rates c) (String (Base a)) (String (Destination a))) \<noteq> None \<longrightarrow>
        Error ''Unable to get update rate'' \<in> set (log c3)"
    by blast
  show ?case
  proof (cases "a = rr")
    case True
    with e Cons.prems have "Error ''Unable to get update rate'' \<in> set (log c3)" by simp
    with send_rates_log_mono [of c3 String Send k v] show ?thesis
      unfolding step by blast
  next
    case False
    with Cons.prems have mem: "rr \<in> set v" by simp
    from Cons.prems r have
      "snd (GetRate (rates c3) (String (Base rr)) (String (Destination rr))) \<noteq> None"
      by simp
    from Cons.IH [OF mem this] show ?thesis unfolding step .
  qed
qed

lemma send_all_fields:
  "rates (send_all String Send ks c) = rates c \<and>
   subscriptions (send_all String Send ks c) = subscriptions c"
  by (induction ks arbitrary: c) (auto simp: send_rates_fields)

lemma send_all_log_mono:
  "set (log c) \<subseteq> set (log (send_all String Send ks c))"
proof (induction ks arbitrary: c)
  case Nil
  then show ?case by simp
next
  case (Cons k ks)
  have "set (log c) \<subseteq> set (log (send_rates String Send k (subscriptions_of c k) c))"
    by (rule send_rates_log_mono)
  also have "\<dots> \<subseteq> set (log (send_all String Send ks
      (send_rates String Send k (subscriptions_of c k) c)))"
    by (rule Cons.IH)
  finally show ?case by (simp add: subscriptions_of_def)
qed

lemma send_all_log:
  "k \<in> set ks \<Longrightarrow> rr \<in> set (subscriptions_of c k) \<Longrightarrow>
   snd (GetRate (rates c) (String (Base rr)) (String (Destination rr))) \<noteq> None \<Longrightarrow>
     Error ''Unable to get update rate'' \<in> set (log (send_all String Send ks c))"
proof (induction ks arbitrary: c)
  case Nil
  then show ?case by simp
next
  case (Cons a ks)
  define c' where "c' = send_rates String Send a (subscriptions_of c a) c"
  have unfold: "send_all String Send (a # ks) c = send_all String Send ks c'"
    by (simp add: c'_def subscriptions_of_def)
  show ?case
  proof (cases "a = k")
    case True
    from Cons.prems(2,3) have
      "Error ''Unable to get update rate''
         \<in> set (log (send_rates String Send k (subscriptions_of c k) c))"
      by (rule send_rates_log)
    with True have "Error ''Unable to get update rate'' \<in> set (log c')"
      by (simp add: c'_def)
    with send_all_log_mono [of c' String Send ks] show ?thesis
      unfolding unfold by blast
  next
    case False
    with Cons.prems have "k \<in> set ks" by simp
    moreover have "rr \<in> set (subscriptions_of c' k)"
      using Cons.prems(2) by (simp add: c'_def subscriptions_of_def send_rates_fields)
    moreover have
      "snd (GetRate (rates c') (String (Base rr)) (String (Destination rr))) \<noteq> None"
      using Cons.prems(3) by (simp add: c'_def send_rates_fields)
    ultimately show ?thesis
      unfolding unfold by (rule Cons.IH)
  qed
qed

lemma send_all_sent_other:
  "k \<notin> set ks \<Longrightarrow> sent_to k (send_all String Send ks c) = sent_to k c"
  by (induction ks arbitrary: c) (auto simp: sent_to_def send_rates_sent)

lemma send_all_sent:
  "distinct ks \<Longrightarrow> k \<in> set ks \<Longrightarrow>
     sent_to k (send_all String Send ks c) =
       sent_to k c @ map (update_for String (rates c)) (subscriptions_of c k)"
proof (induction ks arbitrary: c)
  case Nil
  then show ?case by simp
next
  case (Cons a ks)
  show ?case
  proof (cases "a = k")
    case True
    with Cons.prems have "k \<notin> set ks" by simp
    then show ?thesis using True
      by (simp add: send_all_sent_other)
         (simp add: sent_to_def send_rates_sent subscriptions_of_def comp_def)
  next
    case False
    with Cons.prems have "distinct ks" "k \<in> set ks" by auto
    from Cons.IH [OF this] False show ?thesis
      by (simp add: send_rates_fields subscriptions_of_def)
         (simp add: sent_to_def send_rates_sent)
  qed
qed

lemma handleUpdate_sent:
  "distinct ks \<Longrightarrow> k \<in> set ks \<Longrightarrow>
     sent_to k (handleUpdate String Send ks c) =
       sent_to k c @ map (update_for String (rates c)) (subscriptions_of c k)"
  by (simp add: handleUpdate_def send_all_sent)
     (simp add: log_Info_def sent_to_def subscriptions_of_def)

lemma handleUpdate_log:
  "k \<in> set ks \<Longrightarrow> rr \<in> set (subscriptions_of c k) \<Longrightarrow>
   snd (GetRate (rates c) (String (Base rr)) (String (Destination rr))) \<noteq> None \<Longrightarrow>
     Error ''Unable to get update rate'' \<in> set (log (handleUpdate String Send ks c))"
  unfolding handleUpdate_def
  by (rule send_all_log) (simp_all add: log_Info_def subscriptions_of_def)

text \<open>
  C10. On an update event, every connection that the loop visits is sent one message
  for each of its subscribed pairs, in the order of its list, whether or not the
  lookup of the rate succeeds. For a pair whose lookup fails the message is the rate
  response with rate 0, the value the lookup returns beside its error, and the error
  is only logged.
\<close>

theorem handleUpdate_sends_every_pair:
  "distinct ks \<Longrightarrow> k \<in> set ks \<Longrightarrow>
     sent_to k (handleUpdate String Send ks c) =
       sent_to k c @ map (update_for String (rates c)) (subscriptions_of c k) \<and>
     (\<forall>rr \<in> set (subscriptions_of c k).
        snd (GetRate (rates c) (String (Base rr)) (String (Destination rr))) \<noteq> None \<longrightarrow>
          update_for String (rates c) rr =
            StreamingRateResponse_RateResponse
              \<lparr>Base = Base rr, Destination = Destination rr, Rate_resp = Fin 0\<rparr> \<and>
          Error ''Unable to get update rate'' \<in> set (log (handleUpdate String Send ks c)))"
proof -
  assume d: "distinct ks" and k: "k \<in> set ks"
  have zero: "fst (GetRate e b t) = Fin 0" if "snd (GetRate e b t) \<noteq> None" for e b t
    using that by (auto simp: GetRate_def split: option.splits)
  show ?thesis
    using handleUpdate_sent [OF d k] handleUpdate_log [OF k]
    by (auto simp: update_for_def zero)
qed

text \<open>
  Connection 0 of the example is subscribed to EUR/USD and to EUR/JPY; JPY is not in
  the table.
\<close>

theorem handleUpdate_sends_every_pair_witness:
  "distinct [0::nat] \<and> (0::nat) \<in> set [0] \<and>
   subscriptions_of example_server 0
     = [\<lparr>Base = 0, Destination = 1\<rparr>, \<lparr>Base = 0, Destination = 3\<rparr>] \<and>
   GetRate (rates example_server) (String_example 0) (String_example 3)
     = (Fin 0, Some (RateNotFound ''JPY'')) \<and>
   sent_to 0 (handleUpdate String_example Send_ok [0] example_server)
     = [StreamingRateResponse_RateResponse
          \<lparr>Base = 0, Destination = 1, Rate_resp = Fin (5/4)\<rparr>,
        StreamingRateResponse_RateResponse
          \<lparr>Base = 0, Destination = 3, Rate_resp = Fin 0\<rparr>] \<and>
   Error ''Unable to get update rate''
     \<in> set (log (handleUpdate String_example Send_ok [0] example_server))"
proof -
  have a: "subscriptions_of example_server 0
      = [\<lparr>Base = 0, Destination = 1\<rparr>, \<lparr>Base = 0, Destination = 3\<rparr>]"
    by (simp add: subscriptions_of_def example_server_def)
  have b: "GetRate (rates example_server) (String_example 0) (String_example 3)
      = (Fin 0, Some (RateNotFound ''JPY''))"
    by (simp add: example_server_def example_table_def String_example_def GetRate_def)
  have c: "update_for String_example (rates example_server) \<lparr>Base = 0, Destination = 1\<rparr>
      = StreamingRateResponse_RateResponse
          \<lparr>Base = 0, Destination = 1, Rate_resp = Fin (5/4)\<rparr>"
    by (simp add: update_for_def example_server_def example_table_def String_example_def
        GetRate_def fdiv_def is_zero_def is_inf_def float_eval)
  have d: "sent_to 0 example_server = []"
    by (simp add: sent_to_def example_server_def)
  have e: "distinct [0::nat]" "(0::nat) \<in> set [0]" by simp_all
  from handleUpdate_sends_every_pair [OF e, of String_example Send_ok example_server] a b c d
  show ?thesis by simp
qed

subsection \<open>The end of a stream\<close>

text \<open>
  C7, as amended. When the receive loop of a connection returns, on the end of the
  stream or on an error of \<^verbatim>\<open>Recv\<close>, nothing has been removed from the registry: the
  connection's list starts with the list it had when the loop began and holds, besides
  those pairs, exactly the pairs received before the loop ended; the lists of the other
  connections are as they were. A later pass of the fan-out that visits the connection
  sends it a message for every pair of the list.
\<close>

theorem SubscribeRates_keeps_subscriptions:
  "SubscribeRates src rs c = (Returned r, c') \<Longrightarrow>
     prefix (subscriptions_of c src) (subscriptions_of c' src) \<and>
     set (subscriptions_of c' src) = set (subscriptions_of c src) \<union> set (received rs) \<and>
     (\<forall>k. k \<noteq> src \<longrightarrow> subscriptions c' k = subscriptions c k) \<and>
     (\<forall>ks. distinct ks \<and> src \<in> set ks \<longrightarrow>
        sent_to src (handleUpdate String Send ks c') =
          sent_to src c' @ map (update_for String (rates c')) (subscriptions_of c' src))"
  using SubscribeRates_subscriptions [of src rs c "Returned r" c']
  by (simp add: handleUpdate_sent)

text \<open>
  Connection 0 of the example subscribes to EUR/GBP and closes the stream; the next
  update is sent for its three pairs.
\<close>

theorem SubscribeRates_keeps_subscriptions_witness:
  "SubscribeRates 0 [Request \<lparr>Base = 0, Destination = 2\<rparr>, Failed EOF] example_server
     = (Returned None,
        snd (SubscribeRates 0 [Request \<lparr>Base = 0, Destination = 2\<rparr>, Failed EOF] example_server)) \<and>
   distinct [0::nat] \<and> (0::nat) \<in> set [0] \<and> (1::nat) \<noteq> 0 \<and>
   subscriptions_of
     (snd (SubscribeRates 0 [Request \<lparr>Base = 0, Destination = 2\<rparr>, Failed EOF] example_server)) 0
     = [\<lparr>Base = 0, Destination = 1\<rparr>, \<lparr>Base = 0, Destination = 3\<rparr>,
        \<lparr>Base = 0, Destination = 2\<rparr>] \<and>
   subscriptions
     (snd (SubscribeRates 0 [Request \<lparr>Base = 0, Destination = 2\<rparr>, Failed EOF] example_server)) 1
     = subscriptions example_server 1 \<and>
   sent_to 0 (handleUpdate String_example Send_ok [0]
     (snd (SubscribeRates 0 [Request \<lparr>Base = 0, Destination = 2\<rparr>, Failed EOF] example_server)))
     = [StreamingRateResponse_RateResponse
          \<lparr>Base = 0, Destination = 1, Rate_resp = Fin (5/4)\<rparr>,
        StreamingRateResponse_RateResponse
          \<lparr>Base = 0, Destination = 3, Rate_resp = Fin 0\<rparr>,
        StreamingRateResponse_RateResponse
          \<lparr>Base = 0, Destination = 2, Rate_resp = Fin (3/4)\<rparr>]"
proof -
  define c' where
    "c' = snd (SubscribeRates 0 [Request \<lparr>Base = 0, Destination = 2\<rparr>, Failed EOF] example_server)"
  have new: "\<lparr>Base = 0, Destination = 2\<rparr> \<notin> set (subscriptions_of example_server 0)"
    by (simp add: subscriptions_of_def example_server_def)
  have c'_eq: "c' = example_server
      \<lparr>log := [Info ''Handle Client request'', Info ''Client has closed connection''],
       subscriptions := [0 \<mapsto> [\<lparr>Base = 0, Destination = 1\<rparr>, \<lparr>Base = 0, Destination = 3\<rparr>,
          \<lparr>Base = 0, Destination = 2\<rparr>]]\<rparr>"
    by (simp add: c'_def subscribe_new [OF new] log_Info_def)
       (simp add: example_server_def subscriptions_of_def)
  have run: "SubscribeRates 0 [Request \<lparr>Base = 0, Destination = 2\<rparr>, Failed EOF] example_server
      = (Returned None, c')"
    by (simp add: c'_def)
  have subs: "subscriptions_of c' 0
      = [\<lparr>Base = 0, Destination = 1\<rparr>, \<lparr>Base = 0, Destination = 3\<rparr>,
         \<lparr>Base = 0, Destination = 2\<rparr>]"
    by (simp add: c'_eq subscriptions_of_def)
  have rates: "rates c' = example_table"
    by (simp add: c'_eq example_server_def)
  have sent: "sent_to 0 c' = []"
    by (simp add: c'_eq sent_to_def example_server_def)
  have upd: "map (update_for String_example example_table)
      [\<lparr>Base = 0, Destination = 1\<rparr>, \<lparr>Base = 0, Destination = 3\<rparr>, \<lparr>Base = 0, Destination = 2\<rparr>]
     = [StreamingRateResponse_RateResponse
          \<lparr>Base = 0, Destination = 1, Rate_resp = Fin (5/4)\<rparr>,
        StreamingRateResponse_RateResponse
          \<lparr>Base = 0, Destination = 3, Rate_resp = Fin 0\<rparr>,
        StreamingRateResponse_RateResponse
          \<lparr>Base = 0, Destination = 2, Rate_resp = Fin (3/4)\<rparr>]"
    by (simp add: update_for_def example_table_def String_example_def
        GetRate_def fdiv_def is_zero_def is_inf_def float_eval)
  have other: "subscriptions c' 1 = subscriptions example_server 1"
    by (simp add: c'_eq example_server_def)
  from SubscribeRates_keeps_subscriptions [OF run, of String_example Send_ok]
  have "sent_to 0 (handleUpdate String_example Send_ok [0] c') =
          sent_to 0 c' @ map (update_for String_example (rates c')) (subscriptions_of c' 0)"
    by simp
  with subs rates sent upd other run show ?thesis
    unfolding c'_def [symmetric] by simp
qed

text \<open>
  C7 as stated fails: a connection that subscribed to EUR/USD is still in the registry
  with that pair after its loop has returned, on the end of the stream and on an error
  alike, and the next update is sent to it.
\<close>

theorem SubscribeRates_end_counterexample:
  "SubscribeRates (0::nat) [Request \<lparr>Base = 0, Destination = 1\<rparr>, Failed EOF]
      \<lparr>rates = example_table, log = [], subscriptions = Map.empty, sent = []\<rparr>
     = (Returned None,
        \<lparr>rates = example_table,
         log = [Info ''Handle Client request'', Info ''Client has closed connection''],
         subscriptions = [0 \<mapsto> [\<lparr>Base = 0, Destination = 1\<rparr>]], sent = []\<rparr>) \<and>
   SubscribeRates (0::nat)
      [Request \<lparr>Base = 0, Destination = 1\<rparr>, Failed (TransportError ''connection reset'')]
      \<lparr>rates = example_table, log = [], subscriptions = Map.empty, sent = []\<rparr>
     = (Returned (Some (TransportError ''connection reset'')),
        \<lparr>rates = example_table,
         log = [Info ''Handle Client request'', Error ''Unable to read from client''],
         subscriptions = [0 \<mapsto> [\<lparr>Base = 0, Destination = 1\<rparr>]], sent = []\<rparr>) \<and>
   sent_to 0 (handleUpdate String_example Send_ok [0]
      \<lparr>rates = example_table,
       log = [Info ''Handle Client request'', Info ''Client has closed connection''],
       subscriptions = [0 \<mapsto> [\<lparr>Base = 0, Destination = 1\<rparr>]], sent = []\<rparr>)
     = [StreamingRateResponse_RateResponse
          \<lparr>Base = 0, Destination = 1, Rate_resp = Fin (5/4)\<rparr>]"
  by (simp add: subscribe_def log_Info_def log_Error_def handleUpdate_def sent_to_def
      Send_ok_def String_example_def example_table_def GetRate_def fdiv_def is_zero_def
      is_inf_def float_eval)

section \<open>The earlier revisions\<close>

text \<open>
  The sources hold two revisions of the server and of the function that refreshes the
  table. The properties above are those of the later ones. The earlier ones differ as
  follows: \<^verbatim>\<open>getRates\<close> does not store the rate of EUR, \<^verbatim>\<open>GetRate\<close> of the server
  answers a request whose base equals its destination like any other, and
  \<^verbatim>\<open>SubscribeRates\<close> appends every request.
\<close>

lemma getRates_stores_feed_only:
  "getRates P (Response 200 cubes) e = store_cubes P cubes e"
  by (simp add: getRates_def)

lemma Currency_GetRate_unchecked_same_currency:
  "rates c (String (Base rr)) = Some r \<Longrightarrow> Destination rr = Base rr \<Longrightarrow>
     fst (Currency_GetRate_unchecked String c rr) =
       (Some \<lparr>Base = Base rr, Destination = Destination rr, Rate_resp = fdiv r r\<rparr>, None)"
  by (simp add: Currency_GetRate_unchecked_def GetRate_def log_Info_def)

lemma subscribe_unchecked_appends:
  "subscriptions_of (subscribe_unchecked src rr c) src = subscriptions_of c src @ [rr]"
  by (simp add: subscribe_unchecked_def subscriptions_of_def log_Info_def)

end
